theory Spec2Isabelle
  imports Complex_Main "HOL-Library.List_Lexorder" "HOL-Library.Multiset"
begin

section \<open>Python values, exceptions and NumPy primitives\<close>

text \<open>
  NumPy's float64 numbers are modelled as HOL reals: rounding is not represented.  Every
  place where the Python code raises is a branch returning \<open>Inl\<close>.  Where NumPy would
  not raise but continue with NaN or infinite entries (a division by zero inside an array
  expression only emits a RuntimeWarning), the model returns \<open>Inl NotFinite\<close>: this is not
  a Python exception, it marks a result the real-valued model cannot represent.
\<close>

datatype py_error =
    NameError string
  | TypeError string
  | ValueError string
  | IndexError string
  | ZeroDivisionError
  | NotFinite

text \<open>\<^verbatim>\<open>np.clip(v, lo, hi)\<close> is \<^verbatim>\<open>minimum(maximum(v, lo), hi)\<close>.\<close>

definition np_clip :: "real \<Rightarrow> real \<Rightarrow> real \<Rightarrow> real" where
  "np_clip v lo hi = min (max v lo) hi"


text \<open>An array entry that may be the sentinel \<^verbatim>\<open>-np.inf\<close>.\<close>

datatype ext = NegInf | Fin real

fun ext_le :: "ext \<Rightarrow> real \<Rightarrow> bool" where
  "ext_le NegInf z = True"
| "ext_le (Fin a) z = (a \<le> z)"

text \<open>
  \<^verbatim>\<open>np.searchsorted(a, z, 'right')\<close> on an ascending array: the insertion index \<open>i\<close> with
  \<^verbatim>\<open>a[i-1] <= z < a[i]\<close>, that is the length of the leading run of entries \<open>\<le> z\<close>.
\<close>

definition np_searchsorted_right :: "ext list \<Rightarrow> real \<Rightarrow> nat" where
  "np_searchsorted_right a z = length (takeWhile (\<lambda>v. ext_le v z) a)"

section \<open>core/stat.py: the empirical CDF and its confidence band\<close>

text \<open>
  \<^verbatim>\<open>cdf_confidence(x, alpha)\<close>.  \<^verbatim>\<open>2. / alpha\<close> is a Python float division and raises
  for \<^verbatim>\<open>alpha = 0\<close>.  For an empty \<open>x\<close> both results are empty whatever \<open>eps\<close> is.  For
  \<^verbatim>\<open>alpha < 0\<close> or \<^verbatim>\<open>alpha > 2\<close> the logarithm or the square root is NaN, and so is
  every entry of both results.
\<close>

definition cdf_confidence :: "real list \<Rightarrow> real \<Rightarrow> py_error + (real list \<times> real list)" where
  "cdf_confidence x alpha =
     (if alpha = 0 then Inl ZeroDivisionError
      else if x = [] then Inr ([], [])
      else if alpha < 0 \<or> 2 < alpha then Inl NotFinite
      else
        let eps = sqrt (ln (2 / alpha) / real (2 * length x))
        in Inr (map (\<lambda>v. np_clip (v - eps) 0 1) x, map (\<lambda>v. np_clip (v + eps) 0 1) x))"


text \<open>The specification's words for the two CDF contracts.\<close>

definition dkw_eps :: "real \<Rightarrow> nat \<Rightarrow> real" where
  "dkw_eps alpha m = sqrt (ln (2 / alpha) / (2 * real m))"

definition clip01 :: "real \<Rightarrow> real" where
  "clip01 v = (if v < 0 then 0 else if 1 < v then 1 else v)"


section \<open>core/stat.py: the core extender\<close>

text \<open>
  A TT core is a three-dimensional array: its \<^verbatim>\<open>shape\<close> \<open>(r1, n, r2)\<close> and its entries
  \<^verbatim>\<open>G[i1, j, i2]\<close>.  Only the entries inside the shape mean anything.
\<close>

record core =
  shape :: "nat \<times> nat \<times> nat"
  item :: "nat \<Rightarrow> nat \<Rightarrow> nat \<Rightarrow> real"

text \<open>\<^verbatim>\<open>G[i1, :, i2]\<close>: the mode-axis fibre of a core.\<close>

definition fibre :: "core \<Rightarrow> nat \<Rightarrow> nat \<Rightarrow> real list" where
  "fibre G i1 i2 = map (\<lambda>j. item G i1 j i2) [0..<fst (snd (shape G))]"

text \<open>Two cores are equal entry for entry: same shape, same entries inside it.\<close>

definition core_eq :: "core \<Rightarrow> core \<Rightarrow> bool" where
  "core_eq A B =
     (shape A = shape B \<and>
      (let (r1, n, r2) = shape A in
       \<forall>i1 \<in> {..<r1}. \<forall>j \<in> {..<n}. \<forall>i2 \<in> {..<r2}. item A i1 j i2 = item B i1 j i2))"

text \<open>
  \<^verbatim>\<open>np.interp(x, xp, fp)\<close> for ascending, non-empty \<open>xp\<close>, as NumPy documents and
  implements it: with \<open>j\<close> the number of sample points \<open>\<le> x\<close>, the result is \<^verbatim>\<open>fp[0]\<close>
  left of the first sample point, \<^verbatim>\<open>fp[-1]\<close> from the last one on, and otherwise
  \<^verbatim>\<open>slope * (x - xp[j-1]) + fp[j-1]\<close> on the interval that holds \<open>x\<close>.  With a single
  sample point the result is \<^verbatim>\<open>fp[0]\<close> for every query.
\<close>

definition np_interp :: "real \<Rightarrow> real list \<Rightarrow> real list \<Rightarrow> real" where
  "np_interp x xp fp =
     (let j = length (takeWhile (\<lambda>v. v \<le> x) xp) in
      if j = 0 then fp ! 0
      else if j = length xp then fp ! (length xp - 1)
      else (fp ! j - fp ! (j - 1)) / (xp ! j - xp ! (j - 1)) * (x - xp ! (j - 1)) + fp ! (j - 1))"

text \<open>
  \<^verbatim>\<open>_extend_core(G, n)\<close>.  \<^verbatim>\<open>np.empty\<close> refuses a negative size.  The two loops call
  \<^verbatim>\<open>np.interp\<close> once for every pair \<open>(i1, i2)\<close>; with no such pair nothing is computed.
  \<^verbatim>\<open>np.interp\<close> raises on an empty array of sample points (\<open>nold = 0\<close>).  For \<open>n = 1\<close> the
  query point is \<^verbatim>\<open>0 * (nold - 1) / 0\<close>, which NumPy evaluates to NaN with a warning.
  With two or more sample points \<^verbatim>\<open>np.interp\<close> hands a NaN query back, and every entry of
  the result is NaN.  With a single sample point (\<open>nold = 1\<close>) \<^verbatim>\<open>np.interp\<close> compares the
  query with that point and returns the sample whatever the query is, NaN included: the
  result holds the original entries.
\<close>

definition extend_core :: "core \<Rightarrow> int \<Rightarrow> py_error + core" where
  "extend_core G n =
     (let (r1, nold, r2) = shape G in
      if n < 0 then Inl (ValueError ''negative dimensions are not allowed'')
      else if r1 = 0 \<or> r2 = 0 then Inr \<lparr>shape = (r1, nat n, r2), item = (\<lambda>i1 j i2. 0)\<rparr>
      else if nold = 0 then Inl (ValueError ''array of sample points is empty'')
      else if n = 1 \<and> 1 < nold then Inl NotFinite
      else Inr \<lparr>shape = (r1, nat n, r2),
                item = (\<lambda>i1 j i2.
                   np_interp (real j * real_of_int (int nold - 1) / real_of_int (n - 1))
                     (map real [0..<nold]) (fibre G i1 i2))\<rparr>)"

text \<open>
  The specification's words for the core extender: the \<open>j\<close>-th of \<open>n\<close> evenly spaced
  points spanning \<open>[0, nold - 1]\<close>, and the piecewise linear interpolant of samples taken
  at \<open>0, 1, 2, \<dots>\<close>, evaluated at \<open>t\<close>.
\<close>

definition grid_point :: "nat \<Rightarrow> nat \<Rightarrow> nat \<Rightarrow> real" where
  "grid_point nold n j = real j * ((real nold - 1) / (real n - 1))"

definition lerp_samples :: "real list \<Rightarrow> real \<Rightarrow> real" where
  "lerp_samples s t =
     (let k = nat \<lfloor>t\<rfloor> in
      if k + 1 < length s then (1 - (t - real k)) * s ! k + (t - real k) * s ! (k + 1)
      else s ! (length s - 1))"

section \<open>demo: the benchmark functions\<close>

text \<open>
  A point is a one-dimensional array, a batch of points a two-dimensional array given by
  its rows.  \<^verbatim>\<open>np.sum(A, axis=1)\<close> sums every row.  Each \<^verbatim>\<open>_comp\<close> below is written as the
  source has it: whole-array operations one after the other, then the reduction along the
  rows.
\<close>

definition sum_axis1 :: "real list list \<Rightarrow> real list" where
  "sum_axis1 A = map sum_list A"

definition prod_axis1 :: "real list list \<Rightarrow> real list" where
  "prod_axis1 A = map prod_list A"

text \<open>Elementwise addition of two arrays of one length.\<close>

definition add_arrays :: "real list \<Rightarrow> real list \<Rightarrow> real list" where
  "add_arrays u v = map (\<lambda>(a, b). a + b) (zip u v)"

subsection \<open>demo/demo_func_ackley.py\<close>

text \<open>
  \<^verbatim>\<open>DemoFuncAckley._calc\<close> and \<^verbatim>\<open>_comp\<close>, with the constructor parameters \<open>d\<close>, \<open>a\<close>,
  \<open>b\<close>, \<open>c\<close>.  Both divide by \<open>d\<close>: for \<open>d = 0\<close> NumPy continues with infinite or NaN
  values.
\<close>

definition ackley_calc :: "nat \<Rightarrow> real \<Rightarrow> real \<Rightarrow> real \<Rightarrow> real list \<Rightarrow> py_error + real" where
  "ackley_calc d a b c x =
     (if d = 0 then Inl NotFinite
      else
        let y1 = sqrt (sum_list (map (\<lambda>v. v\<^sup>2) x) / real d);
            y1 = - a * exp (- b * y1);
            y2 = sum_list (map (\<lambda>v. cos (c * v)) x);
            y2 = - exp (y2 / real d);
            y3 = a + exp 1
        in Inr (y1 + y2 + y3))"

definition ackley_comp ::
  "nat \<Rightarrow> real \<Rightarrow> real \<Rightarrow> real \<Rightarrow> real list list \<Rightarrow> py_error + real list" where
  "ackley_comp d a b c X =
     (if d = 0 then Inl NotFinite
      else
        let y1 = map (\<lambda>s. sqrt (s / real d)) (sum_axis1 (map (map (\<lambda>v. v\<^sup>2)) X));
            y1 = map (\<lambda>v. - a * exp (- b * v)) y1;
            y2 = sum_axis1 (map (map (\<lambda>v. cos (c * v))) X);
            y2 = map (\<lambda>v. - exp (v / real d)) y2;
            y3 = a + exp 1
        in Inr (map (\<lambda>v. v + y3) (add_arrays y1 y2)))"

subsection \<open>demo/demo_func_grienwank.py\<close>

text \<open>
  The divisor \<^verbatim>\<open>np.sqrt(np.arange(d) + 1)\<close>, and NumPy's broadcasting of a division along
  the last axis: the two lengths must agree unless one of them is \<open>1\<close>.
\<close>

definition grienwank_weights :: "nat \<Rightarrow> real list" where
  "grienwank_weights d = map (\<lambda>k. sqrt (real k + 1)) [0..<d]"

definition broadcast_div :: "real list \<Rightarrow> real list \<Rightarrow> py_error + real list" where
  "broadcast_div x w =
     (if length x = length w then Inr (map (\<lambda>(a, b). a / b) (zip x w))
      else if length x = 1 then Inr (map (\<lambda>b. x ! 0 / b) w)
      else if length w = 1 then Inr (map (\<lambda>a. a / w ! 0) x)
      else Inl (ValueError ''operands could not be broadcast together''))"

text \<open>
  The same for a batch: every row is divided by \<open>w\<close>.  All rows of an array have one
  length, so the shapes are compatible for every row or for none.  A batch with no rows
  is taken to have compatible columns.
\<close>

fun broadcast_div_rows :: "real list list \<Rightarrow> real list \<Rightarrow> py_error + real list list" where
  "broadcast_div_rows [] w = Inr []"
| "broadcast_div_rows (x # X) w =
     (case broadcast_div x w of
        Inl e \<Rightarrow> Inl e
      | Inr r \<Rightarrow> (case broadcast_div_rows X w of Inl e \<Rightarrow> Inl e | Inr R \<Rightarrow> Inr (r # R)))"

definition grienwank_calc :: "nat \<Rightarrow> real list \<Rightarrow> py_error + real" where
  "grienwank_calc d x =
     (let y1 = sum_list (map (\<lambda>v. v\<^sup>2) x) / 4000 in
      case broadcast_div x (grienwank_weights d) of
        Inl e \<Rightarrow> Inl e
      | Inr q \<Rightarrow>
          let y2 = map cos q;
              y2 = - prod_list y2;
              y3 = 1
          in Inr (y1 + y2 + y3))"

definition grienwank_comp :: "nat \<Rightarrow> real list list \<Rightarrow> py_error + real list" where
  "grienwank_comp d X =
     (let y1 = map (\<lambda>s. s / 4000) (sum_axis1 (map (map (\<lambda>v. v\<^sup>2)) X)) in
      case broadcast_div_rows X (grienwank_weights d) of
        Inl e \<Rightarrow> Inl e
      | Inr Q \<Rightarrow>
          let y2 = map (map cos) Q;
              y2 = map uminus (prod_axis1 y2);
              y3 = 1
          in Inr (map (\<lambda>v. v + y3) (add_arrays y1 y2)))"

subsection \<open>func/demo/func_demo_alpine.py\<close>

definition alpine_calc :: "real \<Rightarrow> real list \<Rightarrow> real" where
  "alpine_calc dy x = sum_list (map (\<lambda>v. \<bar>v * sin v + 0.1 * v\<bar>) x) + dy"

definition alpine_comp :: "real \<Rightarrow> real list list \<Rightarrow> real list" where
  "alpine_comp dy X =
     map (\<lambda>s. s + dy) (sum_axis1 (map (map (\<lambda>v. \<bar>v * sin v + 0.1 * v\<bar>)) X))"

section \<open>core/stat.py: sampling multi-indices from a TT-tensor\<close>

subsection \<open>Names and calls\<close>

text \<open>
  The values a module-level name of \<^verbatim>\<open>stat.py\<close> can be bound to, as far as the sampler
  tells them apart: \<^verbatim>\<open>None\<close>, an integer, a float, or any other object (a module, a
  function).  The module's namespace is a dictionary from names to values.
\<close>

datatype pyval = PyNone | PyInt int | PyFloat real | PyObject

type_synonym globals = "string \<rightharpoonup> pyval"

text \<open>
  The namespace of \<^verbatim>\<open>stat.py\<close> as the file defines it: the two imports and the five
  functions.  Nothing in the file binds \<^verbatim>\<open>float_cf\<close>, and it is no builtin.
\<close>

definition stat_globals :: globals where
  "stat_globals =
     [''np'' \<mapsto> PyObject, ''teneva'' \<mapsto> PyObject, ''cdf_confidence'' \<mapsto> PyObject,
      ''cdf_getter'' \<mapsto> PyObject, ''_extend_core'' \<mapsto> PyObject,
      ''sample_ind_rand'' \<mapsto> PyObject, ''_sample_core_first'' \<mapsto> PyObject]"

text \<open>
  Reading a name that \<^verbatim>\<open>sample_ind_rand\<close> never assigns: a lookup in the module's
  namespace, \<^verbatim>\<open>NameError\<close> when the name is not bound.
\<close>

definition load_global :: "globals \<Rightarrow> string \<Rightarrow> py_error + pyval" where
  "load_global env name = (case env name of None \<Rightarrow> Inl (NameError name) | Some v \<Rightarrow> Inr v)"

text \<open>
  The declared parameters of \<^verbatim>\<open>sample_ind_rand(Y, m, unique=True, m_fact=5, max_rep=100)\<close>.
  A call that passes a keyword argument of another name raises \<^verbatim>\<open>TypeError\<close> before the
  body runs.
\<close>

definition sample_ind_rand_params :: "string list" where
  "sample_ind_rand_params = [''Y'', ''m'', ''unique'', ''m_fact'', ''max_rep'']"

definition bind_keywords :: "string list \<Rightarrow> py_error option" where
  "bind_keywords kwargs =
     (case filter (\<lambda>k. k \<notin> set sample_ind_rand_params) kwargs of
        [] \<Rightarrow> None
      | k # _ \<Rightarrow> Some (TypeError (''unexpected keyword argument '' @ k)))"

subsection \<open>The random source\<close>

text \<open>
  NumPy's global generator, as a stream of uniform variates from \<open>[0, 1)\<close> and the number
  of variates used so far.  A draw reads the next variates and advances the count.
\<close>

record rng =
  source :: "nat \<Rightarrow> real"
  used :: nat

definition random_sample :: "nat \<Rightarrow> rng \<Rightarrow> real list \<times> rng" where
  "random_sample k g = (map (\<lambda>i. source g (used g + i)) [0..<k], g\<lparr>used := used g + k\<rparr>)"

fun cumsum_from :: "real \<Rightarrow> real list \<Rightarrow> real list" where
  "cumsum_from acc [] = []"
| "cumsum_from acc (v # vs) = (acc + v) # cumsum_from (acc + v) vs"

definition np_cumsum :: "real list \<Rightarrow> real list" where
  "np_cumsum p = cumsum_from 0 p"

text \<open>
  \<^verbatim>\<open>norms /= norms.sum()\<close>.  A zero total over a non-empty array makes every entry NaN
  (\<open>None\<close>); NumPy only warns.
\<close>

definition np_normalize :: "real list \<Rightarrow> real list option" where
  "np_normalize norms =
     (if norms \<noteq> [] \<and> sum_list norms = 0 then None
      else Some (map (\<lambda>v. v / sum_list norms) norms))"

text \<open>
  \<^verbatim>\<open>np.random.choice(a, size=sz, p=p, replace=True)\<close> for an integer \<open>a\<close>, as NumPy
  implements it: the checks on \<open>a\<close> and \<open>p\<close> in NumPy's order, then one uniform variate per
  sample, looked up in the cumulative sums of \<open>p\<close>.  \<open>p = None\<close> stands for an array holding
  NaN.
\<close>

definition np_random_choice ::
  "int \<Rightarrow> int \<Rightarrow> real list option \<Rightarrow> rng \<Rightarrow> (py_error + nat list) \<times> rng" where
  "np_random_choice a sz p g =
     (if a \<le> 0 \<and> sz \<noteq> 0
      then (Inl (ValueError ''a must be greater than 0 unless no samples are taken''), g)
      else case p of
        None \<Rightarrow> (Inl (ValueError ''probabilities contain NaN''), g)
      | Some p \<Rightarrow>
          if int (length p) \<noteq> a then (Inl (ValueError ''a and p must have same size''), g)
          else if \<exists>v \<in> set p. v < 0
          then (Inl (ValueError ''probabilities are not non-negative''), g)
          else if sum_list p \<noteq> 1 then (Inl (ValueError ''probabilities do not sum to 1''), g)
          else if sz < 0 then (Inl (ValueError ''negative dimensions are not allowed''), g)
          else
            let cdf = np_cumsum p;
                cdf = map (\<lambda>c. c / last cdf) cdf;
                (us, g') = random_sample (nat sz) g
            in (Inr (map (\<lambda>u. np_searchsorted_right (map Fin cdf) u) us), g'))"

text \<open>
  \<^verbatim>\<open>np.random.shuffle(I)\<close> on the rows of \<open>I\<close>: for \<open>i\<close> from the last index down to \<open>1\<close>,
  swap row \<open>i\<close> with a random row \<open>j \<le> i\<close>.  How NumPy derives \<open>j\<close> from its bit generator is
  not modelled: \<open>j\<close> is read off the next variate.
\<close>

definition random_interval :: "nat \<Rightarrow> rng \<Rightarrow> nat \<times> rng" where
  "random_interval i g =
     (case random_sample 1 g of
        (us, g') \<Rightarrow> (min i (nat \<lfloor>us ! 0 * real (i + 1)\<rfloor>), g'))"

fun shuffle_from :: "nat \<Rightarrow> 'a list \<Rightarrow> rng \<Rightarrow> 'a list \<times> rng" where
  "shuffle_from 0 xs g = (xs, g)"
| "shuffle_from (Suc i) xs g =
     (case random_interval (Suc i) g of
        (j, g') \<Rightarrow> shuffle_from i (xs[Suc i := xs ! j, j := xs ! Suc i]) g')"

definition np_random_shuffle :: "'a list \<Rightarrow> rng \<Rightarrow> 'a list \<times> rng" where
  "np_random_shuffle xs g = shuffle_from (length xs - 1) xs g"

text \<open>\<^verbatim>\<open>np.unique(I, axis=0)\<close>: the distinct rows, in ascending lexicographic order.\<close>

definition np_unique_rows :: "real list list \<Rightarrow> real list list" where
  "np_unique_rows I = sort (remdups I)"

text \<open>\<^verbatim>\<open>I[:m]\<close>: for a negative \<open>m\<close> all rows but the last \<open>-m\<close>.\<close>

definition py_slice_to :: "'a list \<Rightarrow> int \<Rightarrow> 'a list" where
  "py_slice_to xs m = (if 0 \<le> m then take (nat m) xs else take (nat (int (length xs) + m)) xs)"

subsection \<open>The first core\<close>

text \<open>
  Modelled from the spec: \<^verbatim>\<open>teneva._range(n)\<close> is not among the given sources.  The
  specification calls it the native index range \<open>{0, \<dots>, n - 1}\<close>, used as a lookup table
  that translates a drawn position into the index of dimension \<open>0\<close>; the sampler reads it
  as an array of shape \<open>(n, 1)\<close>.
\<close>

definition teneva_range :: "nat \<Rightarrow> real list list" where
  "teneva_range n = map (\<lambda>i. [real i]) [0..<n]"

text \<open>\<^verbatim>\<open>np.sum(Q**2, axis=1)\<close>: the mass of every row.\<close>

definition row_norms :: "real list list \<Rightarrow> real list" where
  "row_norms Q = sum_axis1 (map (map (\<lambda>v. v\<^sup>2)) Q)"

text \<open>
  \<^verbatim>\<open>_sample_core_first(Q, I, m)\<close> (the parameter \<^verbatim>\<open>thr_n\<close> is never read).  Indexing
  with a drawn position outside the array raises \<^verbatim>\<open>IndexError\<close>.
\<close>

definition sample_core_first ::
  "real list list \<Rightarrow> real list list \<Rightarrow> int \<Rightarrow> rng
     \<Rightarrow> (py_error + real list list \<times> real list list) \<times> rng" where
  "sample_core_first Q I m g =
     (let n = length Q;
          norms = row_norms Q;
          norms = np_normalize norms
      in case np_random_choice (int n) m norms g of
           (Inl e, g') \<Rightarrow> (Inl e, g')
         | (Inr ind, g') \<Rightarrow>
             if \<exists>i \<in> set ind. length Q \<le> i \<or> length I \<le> i
             then (Inl (IndexError ''index out of bounds''), g')
             else (Inr (map (\<lambda>i. Q ! i) ind, map (\<lambda>i. I ! i) ind), g'))"

text \<open>
  Lines 90-92 and 103-105: \<^verbatim>\<open>if float_cf is not None: n = n*float_cf; G = _extend_core(G, n)\<close>.
  The result is the new \<open>n\<close> and the core, \<open>None\<close> when the extended core holds NaN (which
  \<^verbatim>\<open>_extend_core\<close> yields only for a target size \<open>1\<close> on a longer mode axis, a size
  that \<open>n * float_cf\<close> never takes).  A
  float or another object as \<^verbatim>\<open>float_cf\<close> makes the product no integer, which
  \<^verbatim>\<open>np.empty\<close> refuses, or cannot be multiplied at all.
\<close>

definition grid_extension :: "pyval \<Rightarrow> core \<Rightarrow> py_error + int \<times> core option" where
  "grid_extension float_cf G =
     (let (r1, n, r2) = shape G in
      case float_cf of
        PyNone \<Rightarrow> Inr (int n, Some G)
      | PyInt k \<Rightarrow>
          (case extend_core G (int n * k) of
             Inl e \<Rightarrow> if e = NotFinite then Inr (int n * k, None) else Inl e
           | Inr G' \<Rightarrow> Inr (int n * k, Some G'))
      | PyFloat f \<Rightarrow> Inl (TypeError ''float object cannot be interpreted as an integer'')
      | PyObject \<Rightarrow> Inl (TypeError ''unsupported operand type for *''))"

text \<open>
  Lines 87-97: the first core, extended if asked for, reshaped to \<open>(n, r2)\<close> and sampled.
  The reshape needs \<open>r1 * n * r2 = n * r2\<close> entries.  A core of NaN entries passes the
  reshape and fails in the draw.  The result is the state \<open>Q\<close>, the drawn indices \<open>I1\<close>
  and the number of columns of \<open>Q\<close>.
\<close>

definition first_core ::
  "pyval \<Rightarrow> core \<Rightarrow> int \<Rightarrow> rng
     \<Rightarrow> (py_error + real list list \<times> real list list \<times> nat) \<times> rng" where
  "first_core float_cf G mhat g =
     (let (r1, n0, r2) = shape G in
      case grid_extension float_cf G of
        Inl e \<Rightarrow> (Inl e, g)
      | Inr (n, Gx) \<Rightarrow>
          if r1 * nat n * r2 \<noteq> nat n * r2 then (Inl (ValueError ''cannot reshape array''), g)
          else
            (case Gx of
               None \<Rightarrow> (Inl (ValueError ''probabilities contain NaN''), g)
             | Some G' \<Rightarrow>
                 let Q = map (\<lambda>j. map (\<lambda>q. item G' 0 j q) [0..<r2]) [0..<nat n] in
                 (case sample_core_first Q (teneva_range (nat n)) mhat g of
                    (Inl e, g') \<Rightarrow> (Inl e, g')
                  | (Inr (Q1, I1), g') \<Rightarrow> (Inr (Q1, I1, r2), g'))))"

subsection \<open>The other cores\<close>

text \<open>
  \<^verbatim>\<open>np.einsum('kr,riq->kiq', Q, G)\<close> for one row \<open>q\<close> of \<open>Q\<close>, of \<open>qcols\<close> entries.  As
  NumPy broadcasts an axis of length \<open>1\<close>, the summed index runs over the longer of the
  two axes.
\<close>

definition einsum_row :: "nat \<Rightarrow> real list \<Rightarrow> core \<Rightarrow> real list list" where
  "einsum_row qcols q G =
     (let (r1, n, r2) = shape G in
      map (\<lambda>i. map (\<lambda>j.
              sum_list (map (\<lambda>r. q ! (if qcols = 1 then 0 else r) * item G (if r1 = 1 then 0 else r) i j)
                [0..<(if qcols = 1 then r1 else qcols)]))
            [0..<r2])
        [0..<n])"

text \<open>
  Lines 111-115, the body of the loop over the candidates: the masses of the candidate's
  slice \<open>qm\<close> (\<open>None\<close> when it holds NaN), one draw, the write into column \<open>di\<close> of the
  candidate's multi-index \<open>im\<close>, and the row of \<open>qm\<close> that becomes its new state.
\<close>

definition sample_candidate ::
  "nat \<Rightarrow> int \<Rightarrow> real list list option \<Rightarrow> real list \<Rightarrow> rng
     \<Rightarrow> (py_error + real list \<times> real list) \<times> rng" where
  "sample_candidate di n qm im g =
     (let norms = (case qm of None \<Rightarrow> None | Some qm \<Rightarrow> np_normalize (row_norms qm)) in
      case np_random_choice n 1 norms g of
        (Inl e, g') \<Rightarrow> (Inl e, g')
      | (Inr ind, g') \<Rightarrow>
          (case (ind, qm) of
             (i_cur # _, Some qm) \<Rightarrow>
               if length im \<le> di then (Inl (IndexError ''index out of bounds''), g')
               else if length qm \<le> i_cur then (Inl (IndexError ''index out of bounds''), g')
               else (Inr (im[di := real i_cur], qm ! i_cur), g')
           | _ \<Rightarrow> (Inl (IndexError ''index out of bounds''), g')))"

text \<open>Line 110: the loop over \<^verbatim>\<open>zip(I, Qtens, Q)\<close>; an exception ends it.\<close>

fun sample_rows ::
  "nat \<Rightarrow> int \<Rightarrow> (real list \<Rightarrow> real list list option) \<Rightarrow> (real list \<times> real list) list \<Rightarrow> rng
     \<Rightarrow> (py_error + (real list \<times> real list) list) \<times> rng" where
  "sample_rows di n slice [] g = (Inr [], g)"
| "sample_rows di n slice ((im, q) # rest) g =
     (case sample_candidate di n (slice q) im g of
        (Inl e, g') \<Rightarrow> (Inl e, g')
      | (Inr c, g') \<Rightarrow>
          (case sample_rows di n slice rest g' of
             (Inl e, g'') \<Rightarrow> (Inl e, g'')
           | (Inr cs, g'') \<Rightarrow> (Inr (c # cs), g'')))"

text \<open>
  Lines 102-115, one pass of the loop over \<^verbatim>\<open>Z[1:]\<close>: the extension, the contraction
  (which needs the columns of \<open>Q\<close> and the first axis of the core to agree, or one of them
  to have length \<open>1\<close>), and the loop over the candidates.
\<close>

definition sample_dim ::
  "pyval \<Rightarrow> nat \<Rightarrow> core \<Rightarrow> real list list \<Rightarrow> real list list \<Rightarrow> nat \<Rightarrow> rng
     \<Rightarrow> (py_error + real list list \<times> real list list) \<times> rng" where
  "sample_dim float_cf di G I Q qcols g =
     (let (r1, n0, r2) = shape G in
      case grid_extension float_cf G of
        Inl e \<Rightarrow> (Inl e, g)
      | Inr (n, Gx) \<Rightarrow>
          if qcols \<noteq> r1 \<and> qcols \<noteq> 1 \<and> r1 \<noteq> 1
          then (Inl (ValueError ''einsum operands could not be broadcast together''), g)
          else
            (case sample_rows di n (\<lambda>q. map_option (einsum_row qcols q) Gx) (zip I Q) g of
               (Inl e, g') \<Rightarrow> (Inl e, g')
             | (Inr cs, g') \<Rightarrow> (Inr (map fst cs, map snd cs), g')))"

text \<open>Line 101: the loop over \<^verbatim>\<open>enumerate(Z[1:], start=1)\<close>.\<close>

fun sample_dims ::
  "pyval \<Rightarrow> nat \<Rightarrow> core list \<Rightarrow> real list list \<Rightarrow> real list list \<Rightarrow> nat \<Rightarrow> rng
     \<Rightarrow> (py_error + real list list) \<times> rng" where
  "sample_dims float_cf di [] I Q qcols g = (Inr I, g)"
| "sample_dims float_cf di (G # Gs) I Q qcols g =
     (case sample_dim float_cf di G I Q qcols g of
        (Inl e, g') \<Rightarrow> (Inl e, g')
      | (Inr (I', Q'), g') \<Rightarrow> sample_dims float_cf (Suc di) Gs I' Q' (snd (snd (shape G))) g')"

subsection \<open>The sampler\<close>

text \<open>
  Lines 84-115: everything up to the batch \<open>I\<close> of \<open>mhat\<close> candidate multi-indices.
  \<^verbatim>\<open>teneva.orthogonalize\<close> is not among the given sources and is a parameter; it may
  raise.  \<^verbatim>\<open>Z[0]\<close> raises on an empty list.  The name \<^verbatim>\<open>float_cf\<close> is read from the
  module's namespace at line 90, before the first draw.  \<^verbatim>\<open>np.empty([.., d])\<close> leaves the
  entries of \<open>I\<close> unset; they are written as \<open>0\<close> here and overwritten column by column.
  The result carries the value of \<^verbatim>\<open>float_cf\<close>.
\<close>

definition draw_batch ::
  "globals \<Rightarrow> (core list \<Rightarrow> py_error + core list \<times> real) \<Rightarrow> core list \<Rightarrow> int \<Rightarrow> rng
     \<Rightarrow> (py_error + pyval \<times> real list list) \<times> rng" where
  "draw_batch env orthogonalize Y mhat g =
     (let d = length Y in
      case orthogonalize Y of
        Inl e \<Rightarrow> (Inl e, g)
      | Inr (Z, p) \<Rightarrow>
          (case Z of
             [] \<Rightarrow> (Inl (IndexError ''list index out of range''), g)
           | G # Zs \<Rightarrow>
               (case load_global env ''float_cf'' of
                  Inl e \<Rightarrow> (Inl e, g)
                | Inr float_cf \<Rightarrow>
                    (case first_core float_cf G mhat g of
                       (Inl e, g1) \<Rightarrow> (Inl e, g1)
                     | (Inr (Q, I1, qcols), g1) \<Rightarrow>
                         if d = 0 then (Inl (IndexError ''index 0 is out of bounds''), g1)
                         else
                           let I = map (\<lambda>row. (replicate d 0)[0 := row ! 0]) I1 in
                           (case sample_dims float_cf 1 Zs I Q qcols g1 of
                              (Inl e, g2) \<Rightarrow> (Inl e, g2)
                            | (Inr I, g2) \<Rightarrow> (Inr (float_cf, I), g2))))))"

text \<open>
  Lines 131-139: the first \<open>m\<close> rows, the check of their number, and the division by
  \<^verbatim>\<open>float_cf\<close> when it is not \<^verbatim>\<open>None\<close> (a division by zero leaves infinite or NaN
  entries).
\<close>

definition finish :: "pyval \<Rightarrow> real list list \<Rightarrow> int \<Rightarrow> py_error + real list list" where
  "finish float_cf I m =
     (let I = py_slice_to I m in
      if int (length I) \<noteq> m
      then Inl (ValueError ''Can not generate the required number of samples'')
      else case float_cf of
        PyNone \<Rightarrow> Inr I
      | PyInt k \<Rightarrow> if k = 0 then Inl NotFinite else Inr (map (map (\<lambda>v. v / real_of_int k)) I)
      | PyFloat f \<Rightarrow> if f = 0 then Inl NotFinite else Inr (map (map (\<lambda>v. v / f)) I)
      | PyObject \<Rightarrow> Inl (TypeError ''unsupported operand type for /''))"

text \<open>
  \<^verbatim>\<open>sample_ind_rand(Y, m, unique, m_fact, max_rep)\<close>, called with the keyword arguments
  named in \<open>kwargs\<close>, in the namespace \<open>env\<close>.  The retry at line 125 is a call of the
  function itself with \<^verbatim>\<open>2*m_fact\<close>, \<^verbatim>\<open>max_rep - 1\<close> and the keyword argument
  \<^verbatim>\<open>float_cf\<close>.
\<close>

function sample_ind_rand ::
  "globals \<Rightarrow> (core list \<Rightarrow> py_error + core list \<times> real) \<Rightarrow> core list \<Rightarrow> int \<Rightarrow> bool \<Rightarrow> int
     \<Rightarrow> int \<Rightarrow> string list \<Rightarrow> rng \<Rightarrow> (py_error + real list list) \<times> rng" where
  "sample_ind_rand env orthogonalize Y m unique m_fact max_rep kwargs g =
     (case bind_keywords kwargs of
        Some e \<Rightarrow> (Inl e, g)
      | None \<Rightarrow>
          (case draw_batch env orthogonalize Y (if unique then m_fact * m else m) g of
             (Inl e, g1) \<Rightarrow> (Inl e, g1)
           | (Inr (float_cf, I), g1) \<Rightarrow>
               if unique then
                 let I = np_unique_rows I in
                 if int (length I) < m then
                   if max_rep < 0 \<or> 1000000 < m_fact
                   then (Inl (ValueError ''Can not generate the required number of samples''), g1)
                   else sample_ind_rand env orthogonalize Y m True (2 * m_fact) (max_rep - 1)
                          [''float_cf''] g1
                 else
                   (case np_random_shuffle I g1 of (I, g2) \<Rightarrow> (finish float_cf I m, g2))
               else (finish float_cf I m, g1)))"
  by pat_completeness auto
termination
  by (relation "measure (\<lambda>(env, orthogonalize, Y, m, unique, m_fact, max_rep, kwargs, g).
        nat (max_rep + 1))") auto

declare sample_ind_rand.simps [simp del]

text \<open>
  Inputs used by the examples below: an orthogonalizer that returns its argument (a chain
  of one core needs no sweep), the namespace with \<^verbatim>\<open>float_cf\<close> bound to \<^verbatim>\<open>None\<close>, a
  random source, a one-core tensor with the single reachable index \<open>0\<close>, a one-core tensor
  of three equally likely indices, and a two-core tensor in which index \<open>1\<close> of the first
  dimension has no continuation.
\<close>

definition orth_id :: "core list \<Rightarrow> py_error + core list \<times> real" where
  "orth_id Y = Inr (Y, 1)"

definition patched_globals :: globals where
  "patched_globals = stat_globals(''float_cf'' \<mapsto> PyNone)"

definition rng0 :: rng where
  "rng0 = \<lparr>source = (\<lambda>k. real (k mod 7) / 7), used = 0\<rparr>"

definition one_hot :: core where
  "one_hot = \<lparr>shape = (1, 2, 1), item = (\<lambda>i1 j i2. if j = 0 then 1 else 0)\<rparr>"

definition uniform3 :: core where
  "uniform3 = \<lparr>shape = (1, 3, 1), item = (\<lambda>i1 j i2. 1)\<rparr>"

definition fork_left :: core where
  "fork_left = \<lparr>shape = (1, 2, 2), item = (\<lambda>i1 j i2. if j = i2 then 1 else 0)\<rparr>"

definition fork_right :: core where
  "fork_right = \<lparr>shape = (2, 3, 1), item = (\<lambda>i1 j i2. if i1 = 0 then real j else 0)\<rparr>"

section \<open>Verified properties\<close>

lemma np_clip_clip01: "np_clip v 0 1 = clip01 v"
  by (simp add: np_clip_def clip01_def min_def max_def)

lemma clip01_range: "0 \<le> clip01 v \<and> clip01 v \<le> 1"
  by (simp add: clip01_def)

text \<open>
  Claim C7.  For a non-empty array \<open>x\<close> of CDF values and \<open>alpha\<close> in \<open>(0, 1)\<close>,
  \<^verbatim>\<open>cdf_confidence\<close> returns exactly the pair of pointwise clipped arrays
  \<open>clip(x - \<epsilon>, 0, 1)\<close> and \<open>clip(x + \<epsilon>, 0, 1)\<close> with the Dvoretzky-Kiefer-Wolfowitz
  half-width \<open>\<epsilon> = sqrt (ln (2 / alpha) / (2 m))\<close>, \<open>m\<close> the length of \<open>x\<close>; both results
  have the length of \<open>x\<close> and every entry lies in \<open>[0, 1]\<close>.
\<close>

theorem C7_cdf_confidence_dkw:
  assumes "x \<noteq> []" and "0 < alpha" and "alpha < 1"
  shows "\<exists>lo hi. cdf_confidence x alpha = Inr (lo, hi)
           \<and> lo = map (\<lambda>v. clip01 (v - dkw_eps alpha (length x))) x
           \<and> hi = map (\<lambda>v. clip01 (v + dkw_eps alpha (length x))) x
           \<and> length lo = length x \<and> length hi = length x
           \<and> (\<forall>v \<in> set lo \<union> set hi. 0 \<le> v \<and> v \<le> 1)"
  using assms
  by (auto simp: cdf_confidence_def Let_def np_clip_clip01 dkw_eps_def clip01_range)

theorem C7_cdf_confidence_dkw_witness:
  "[1/2, 1] \<noteq> ([]::real list) \<and> (0::real) < 1/2 \<and> (1/2::real) < 1
   \<and> cdf_confidence [1/2, 1] (1/2) =
       Inr ([clip01 (1/2 - dkw_eps (1/2) 2), clip01 (1 - dkw_eps (1/2) 2)],
            [clip01 (1/2 + dkw_eps (1/2) 2), clip01 (1 + dkw_eps (1/2) 2)])"
  using C7_cdf_confidence_dkw [of "[1/2, 1]" "1/2"] by (simp add: numeral_2_eq_2)


lemma takeWhile_sorted_filter:
  "sorted (xs::real list) \<Longrightarrow> takeWhile (\<lambda>v. v \<le> z) xs = filter (\<lambda>v. v \<le> z) xs"
  by (induction xs) (auto simp: empty_filter_conv)











lemma filter_less_upt: "filter (\<lambda>k. k < c) [0..<n] = [0..<min n c]"
proof (induction n)
  case 0
  then show ?case by simp
next
  case (Suc n)
  show ?case
  proof (cases "n < c")
    case True
    with Suc show ?thesis by (simp add: min_def)
  next
    case False
    then have "min n c = c" "min (Suc n) c = c" by simp_all
    with Suc False show ?thesis by simp
  qed
qed

lemma count_samples_le:
  assumes "0 \<le> x"
  shows "length (takeWhile (\<lambda>v. v \<le> x) (map real [0..<n])) = min n (nat \<lfloor>x\<rfloor> + 1)"
proof -
  have le_iff: "\<And>k. (real k \<le> x) = (k < nat \<lfloor>x\<rfloor> + 1)"
    using assms by (simp add: le_floor_iff le_nat_iff less_Suc_eq_le)
  have "sorted (map real [0..<n])"
    by (simp add: sorted_map sorted_wrt_iff_nth_less)
  then have "takeWhile (\<lambda>v. v \<le> x) (map real [0..<n]) = filter (\<lambda>v. v \<le> x) (map real [0..<n])"
    by (rule takeWhile_sorted_filter)
  also have "\<dots> = map real (filter (\<lambda>k. k < nat \<lfloor>x\<rfloor> + 1) [0..<n])"
    by (simp add: filter_map comp_def le_iff)
  finally show ?thesis by (simp add: filter_less_upt)
qed

lemma np_interp_lerp:
  assumes "0 \<le> x" and "length fp = n" and "0 < n"
  shows "np_interp x (map real [0..<n]) fp = lerp_samples fp x"
proof -
  let ?k = "nat \<lfloor>x\<rfloor>"
  have cnt: "length (takeWhile (\<lambda>v. v \<le> x) (map real [0..<n])) = min n (?k + 1)"
    using assms(1) by (rule count_samples_le)
  show ?thesis
  proof (cases "?k + 1 < n")
    case True
    then have "min n (?k + 1) = ?k + 1" by simp
    with True assms cnt show ?thesis
      by (simp add: np_interp_def lerp_samples_def Let_def algebra_simps)
  next
    case False
    then have "min n (?k + 1) = n" by simp
    with False assms cnt show ?thesis
      by (simp add: np_interp_def lerp_samples_def Let_def)
  qed
qed

lemma fibre_length: "shape G = (r1, nold, r2) \<Longrightarrow> length (fibre G i1 i2) = nold"
  by (simp add: fibre_def)

lemma query_point:
  "real j * (real nold - 1) / (real n - 1) = grid_point nold n j"
  by (simp add: grid_point_def)

lemma grid_point_nonneg: "0 < nold \<Longrightarrow> 1 < n \<Longrightarrow> 0 \<le> grid_point nold n j"
  by (simp add: grid_point_def)

lemma grid_point_props:
  assumes "1 < n"
  shows "grid_point nold n 0 = 0"
    and "grid_point nold n (n - 1) = real nold - 1"
    and "grid_point nold n (Suc j) - grid_point nold n j = (real nold - 1) / (real n - 1)"
proof -
  define c where "c = (real nold - 1) / (real n - 1)"
  have gp: "\<And>k. grid_point nold n k = real k * c"
    by (simp add: grid_point_def c_def)
  show "grid_point nold n 0 = 0" by (simp add: gp)
  have "real (n - 1) * c = real nold - 1"
    using assms by (simp add: c_def of_nat_diff)
  then show "grid_point nold n (n - 1) = real nold - 1" by (simp only: gp)
  have "real (Suc j) * c - real j * c = c" by (simp add: ring_distribs)
  then show "grid_point nold n (Suc j) - grid_point nold n j = (real nold - 1) / (real n - 1)"
    by (simp only: gp c_def)
qed

lemma extend_core_value:
  assumes "shape G = (r1, nold, r2)" and "1 < n" and "0 < nold" and "0 < r1" and "0 < r2"
  shows "extend_core G (int n) =
           Inr \<lparr>shape = (r1, n, r2),
                item = (\<lambda>i1 j i2. lerp_samples (fibre G i1 i2) (grid_point nold n j))\<rparr>"
  using assms
  by (simp add: extend_core_def query_point np_interp_lerp fibre_length grid_point_nonneg)

lemma extend_core_empty:
  assumes "shape G = (r1, nold, r2)" and "r1 = 0 \<or> r2 = 0"
  shows "extend_core G (int n) = Inr \<lparr>shape = (r1, n, r2), item = (\<lambda>i1 j i2. 0)\<rparr>"
  using assms by (auto simp: extend_core_def)

text \<open>
  Claim C8, amended.  For a core of shape \<open>(r1, nold, r2)\<close> with at least one mode sample
  (or with no \<open>(r1, r2)\<close> pair at all) and a target size \<open>n > 1\<close>, \<^verbatim>\<open>_extend_core\<close>
  returns a core of shape \<open>(r1, n, r2)\<close> whose fibre for every pair \<open>(i1, i2)\<close> is the linear
  interpolant of the original fibre at \<open>n\<close> evenly spaced points that start at \<open>0\<close> and end
  at \<open>nold - 1\<close>.  The counterexample is a core with an empty mode axis, on which
  \<^verbatim>\<open>np.interp\<close> raises.
\<close>

theorem C8_extend_core_interpolates:
  assumes "shape G = (r1, nold, r2)" and "1 < n" and "0 < nold \<or> r1 = 0 \<or> r2 = 0"
  shows "\<exists>Gn. extend_core G (int n) = Inr Gn \<and> shape Gn = (r1, n, r2)
           \<and> (\<forall>i1 < r1. \<forall>j < n. \<forall>i2 < r2.
                 item Gn i1 j i2 = lerp_samples (fibre G i1 i2) (grid_point nold n j))
           \<and> grid_point nold n 0 = 0
           \<and> grid_point nold n (n - 1) = real nold - 1
           \<and> (\<forall>j. grid_point nold n (Suc j) - grid_point nold n j = (real nold - 1) / (real n - 1))"
proof -
  have grid: "grid_point nold n 0 = 0" "grid_point nold n (n - 1) = real nold - 1"
    "\<forall>j. grid_point nold n (Suc j) - grid_point nold n j = (real nold - 1) / (real n - 1)"
    using grid_point_props [OF assms(2), of nold] by blast+
  show ?thesis
  proof (cases "r1 = 0 \<or> r2 = 0")
    case True
    from extend_core_empty [OF assms(1) True, of n] True grid show ?thesis by auto
  next
    case False
    with assms(3) have "0 < nold" "0 < r1" "0 < r2" by auto
    from extend_core_value [OF assms(1,2) this] grid show ?thesis by simp
  qed
qed

theorem C8_extend_core_interpolates_witness:
  "shape \<lparr>shape = (1, 2, 1), item = (\<lambda>i1 j i2. real j * 4)\<rparr> = (1, 2, 1) \<and> (1::nat) < 3
   \<and> (\<exists>Gn. extend_core \<lparr>shape = (1, 2, 1), item = (\<lambda>i1 j i2. real j * 4)\<rparr> 3 = Inr Gn
         \<and> shape Gn = (1, 3, 1)
         \<and> item Gn 0 0 0 = 0 \<and> item Gn 0 1 0 = 2 \<and> item Gn 0 2 0 = 4)"
proof -
  let ?G = "\<lparr>shape = (1, 2, 1), item = (\<lambda>i1 j i2. real j * 4)\<rparr>"
  obtain Gn where Gn: "extend_core ?G (int 3) = Inr Gn" "shape Gn = (1, 3, 1)"
    and items: "\<forall>i1 < 1. \<forall>j < 3. \<forall>i2 < 1.
       item Gn i1 j i2 = lerp_samples (fibre ?G i1 i2) (grid_point 2 3 j)"
    using C8_extend_core_interpolates [of ?G 1 2 1 3] by auto
  from items have "item Gn 0 0 0 = lerp_samples (fibre ?G 0 0) (grid_point 2 3 0)"
    and "item Gn 0 1 0 = lerp_samples (fibre ?G 0 0) (grid_point 2 3 1)"
    and "item Gn 0 2 0 = lerp_samples (fibre ?G 0 0) (grid_point 2 3 2)"
    by simp_all
  then have "item Gn 0 0 0 = 0" "item Gn 0 1 0 = 2" "item Gn 0 2 0 = 4"
    by (simp_all add: lerp_samples_def grid_point_def fibre_def Let_def)
  with Gn show ?thesis by auto
qed

theorem C8_extend_core_empty_mode_counterexample:
  "extend_core \<lparr>shape = (1, 0, 1), item = (\<lambda>i1 j i2. 0)\<rparr> 2 =
     Inl (ValueError ''array of sample points is empty'')"
  by (simp add: extend_core_def)

lemma lerp_at_sample:
  assumes "j < length s"
  shows "lerp_samples s (real j) = s ! j"
proof (cases "Suc j < length s")
  case True
  then show ?thesis by (simp add: lerp_samples_def Let_def)
next
  case False
  with assms have "length s - 1 = j" by simp
  with False show ?thesis by (simp add: lerp_samples_def Let_def)
qed

lemma np_interp_single: "np_interp x [a] [v] = v"
  by (simp add: np_interp_def Let_def)

lemma extend_core_single:
  assumes "shape G = (r1, 1, r2)" and "0 < r1" and "0 < r2"
  shows "extend_core G 1 = Inr \<lparr>shape = (r1, 1, r2), item = (\<lambda>i1 j i2. item G i1 0 i2)\<rparr>"
  using assms by (simp add: extend_core_def fibre_def np_interp_single)

text \<open>
  Claim C9.  For a core with at least one mode sample (or with no \<open>(r1, r2)\<close> pair at
  all), \<^verbatim>\<open>_extend_core(G, nold)\<close> with \<open>nold\<close> the core's own mode size returns a core equal
  to \<open>G\<close> entry for entry.  For \<open>nold > 1\<close> the query points are the sample points
  themselves; for \<open>nold = 1\<close> the single sample is returned for the one query.
\<close>

theorem C9_extend_core_identity:
  assumes "shape G = (r1, nold, r2)" and "0 < nold \<or> r1 = 0 \<or> r2 = 0"
  shows "\<exists>Gn. extend_core G (int nold) = Inr Gn \<and> core_eq Gn G"
proof (cases "r1 = 0 \<or> r2 = 0")
  case True
  from extend_core_empty [OF assms(1) True, of nold] True assms(1) show ?thesis
    by (auto simp: core_eq_def)
next
  case False
  with assms(2) have pos: "0 < nold" and r: "0 < r1" "0 < r2" by auto
  show ?thesis
  proof (cases "nold = 1")
    case True
    with assms(1) have sh: "shape G = (r1, 1, r2)" by simp
    from extend_core_single [OF sh r] True sh show ?thesis
      by (simp add: core_eq_def)
  next
    case False
    with pos have n: "1 < nold" by simp
    have gp: "\<And>j. grid_point nold nold j = real j"
      using n by (simp add: grid_point_def)
    have "\<And>i1 j i2. j < nold \<Longrightarrow> lerp_samples (fibre G i1 i2) (real j) = item G i1 j i2"
      using assms(1) by (simp add: lerp_at_sample fibre_length) (simp add: fibre_def)
    with extend_core_value [OF assms(1) n pos r] assms(1) gp show ?thesis
      by (simp add: core_eq_def)
  qed
qed

theorem C9_extend_core_identity_witness:
  "shape \<lparr>shape = (1, 2, 1), item = (\<lambda>i1 j i2. real j * 4 + 1)\<rparr> = (1, 2, 1) \<and> (0::nat) < 2
   \<and> (\<exists>Gn. extend_core \<lparr>shape = (1, 2, 1), item = (\<lambda>i1 j i2. real j * 4 + 1)\<rparr> 2 = Inr Gn
         \<and> item Gn 0 0 0 = 1 \<and> item Gn 0 1 0 = 5)
   \<and> shape \<lparr>shape = (1, 1, 1), item = (\<lambda>i1 j i2. 5)\<rparr> = (1, 1, 1) \<and> (0::nat) < 1
   \<and> (\<exists>Gn. extend_core \<lparr>shape = (1, 1, 1), item = (\<lambda>i1 j i2. 5)\<rparr> 1 = Inr Gn
         \<and> shape Gn = (1, 1, 1) \<and> item Gn 0 0 0 = 5)"
proof -
  let ?G = "\<lparr>shape = (1, 2, 1), item = (\<lambda>i1 j i2. real j * 4 + 1)\<rparr>"
  let ?H = "\<lparr>shape = (1, 1, 1), item = (\<lambda>i1 j i2. 5::real)\<rparr>"
  obtain Gn where Gn: "extend_core ?G (int 2) = Inr Gn" "core_eq Gn ?G"
    using C9_extend_core_identity [of ?G 1 2 1] by auto
  from Gn(2) have "item Gn 0 0 0 = 1" "item Gn 0 1 0 = 5"
    by (auto simp: core_eq_def)
  with Gn(1) have two: "\<exists>Gn. extend_core ?G 2 = Inr Gn \<and> item Gn 0 0 0 = 1 \<and> item Gn 0 1 0 = 5"
    by auto
  obtain Hn where Hn: "extend_core ?H (int 1) = Inr Hn" "core_eq Hn ?H"
    using C9_extend_core_identity [of ?H 1 1 1] by auto
  from Hn(2) have "shape Hn = (1, 1, 1)" "item Hn 0 0 0 = 5"
    by (auto simp: core_eq_def)
  with Hn(1) have one: "\<exists>Gn. extend_core ?H 1 = Inr Gn \<and> shape Gn = (1, 1, 1) \<and> item Gn 0 0 0 = 5"
    by auto
  from two one show ?thesis by simp
qed

lemma add_arrays_nth:
  "i < length u \<Longrightarrow> i < length v \<Longrightarrow> add_arrays u v ! i = u ! i + v ! i"
  by (simp add: add_arrays_def)

lemma add_arrays_length: "length (add_arrays u v) = min (length u) (length v)"
  by (simp add: add_arrays_def)

lemma ackley_rowwise:
  assumes "i < length X" and "0 < d"
  shows "\<exists>ys. ackley_comp d a b c X = Inr ys \<and> length ys = length X
           \<and> ackley_calc d a b c (X ! i) = Inr (ys ! i)"
  using assms
  by (simp add: ackley_comp_def ackley_calc_def Let_def sum_axis1_def add_arrays_nth
      add_arrays_length)

lemma broadcast_div_rows_ok:
  assumes "\<forall>x \<in> set X. length x = length w"
  shows "broadcast_div_rows X w = Inr (map (\<lambda>x. map (\<lambda>(a, b). a / b) (zip x w)) X)"
  using assms by (induction X) (simp_all add: broadcast_div_def)

lemma grienwank_rowwise:
  assumes "i < length X" and "\<forall>x \<in> set X. length x = d"
  shows "\<exists>ys. grienwank_comp d X = Inr ys \<and> length ys = length X
           \<and> grienwank_calc d (X ! i) = Inr (ys ! i)"
proof -
  have w: "length (grienwank_weights d) = d" by (simp add: grienwank_weights_def)
  from assms(2) w have rows: "\<forall>x \<in> set X. length x = length (grienwank_weights d)" by simp
  from assms have xi: "length (X ! i) = length (grienwank_weights d)" using w by simp
  show ?thesis
    using assms(1) xi
    by (simp add: grienwank_comp_def grienwank_calc_def Let_def broadcast_div_rows_ok [OF rows]
        broadcast_div_def sum_axis1_def prod_axis1_def add_arrays_nth add_arrays_length)
qed

lemma alpine_rowwise:
  assumes "i < length X"
  shows "length (alpine_comp dy X) = length X \<and> alpine_comp dy X ! i = alpine_calc dy (X ! i)"
  using assms by (simp add: alpine_comp_def alpine_calc_def sum_axis1_def)

text \<open>
  Claim C10.  For Ackley, Grienwank and Alpine the batched evaluator \<^verbatim>\<open>_comp\<close> agrees with
  the scalar evaluator \<^verbatim>\<open>_calc\<close> on every row: for a batch \<open>X\<close> of shape \<open>(m, d)\<close> and a row
  index \<open>i\<close>, \<^verbatim>\<open>_comp(X)[i]\<close> is \<^verbatim>\<open>_calc(X[i])\<close>.  Both are functions of the point and the
  constructor parameters \<open>d\<close>, \<open>a\<close>, \<open>b\<close>, \<open>c\<close>, \<open>dy\<close> alone.  Ackley divides by \<open>d\<close>, so
  its two evaluators return numbers for \<open>d > 0\<close>.
\<close>

theorem C10_comp_agrees_with_calc:
  assumes "i < length X" and "\<forall>x \<in> set X. length x = d"
  shows "(0 < d \<longrightarrow> (\<exists>ys. ackley_comp d a b c X = Inr ys \<and> length ys = length X
            \<and> ackley_calc d a b c (X ! i) = Inr (ys ! i)))
       \<and> (\<exists>ys. grienwank_comp d X = Inr ys \<and> length ys = length X
            \<and> grienwank_calc d (X ! i) = Inr (ys ! i))
       \<and> length (alpine_comp dy X) = length X
       \<and> alpine_comp dy X ! i = alpine_calc dy (X ! i)"
  using ackley_rowwise [OF assms(1)] grienwank_rowwise [OF assms(1,2)] alpine_rowwise [OF assms(1)]
  by blast

theorem C10_comp_agrees_with_calc_witness:
  "(1::nat) < length [[0, 0], [1, 2::real]] \<and> (0::nat) < 2
   \<and> (\<exists>ys. ackley_comp 2 20 (1/5) 6 [[0, 0], [1, 2]] = Inr ys \<and> length ys = 2
         \<and> ackley_calc 2 20 (1/5) 6 [1, 2] = Inr (ys ! 1))
   \<and> (\<exists>ys. grienwank_comp 2 [[0, 0], [1, 2]] = Inr ys \<and> length ys = 2
         \<and> grienwank_calc 2 [1, 2] = Inr (ys ! 1))
   \<and> alpine_comp 0 [[0, 0], [1, 2]] ! 1 = alpine_calc 0 [1, 2]
   \<and> grienwank_comp 2 [[0, 0], [1, 2]] = Inr [0, 1/800 + 1 - cos 1 * cos (2 / sqrt 2)]"
proof -
  have rows: "\<forall>x \<in> set [[0, 0], [1, 2::real]]. length x = 2" by simp
  have val: "grienwank_comp 2 [[0, 0], [1, 2]] = Inr [0, 1/800 + 1 - cos 1 * cos (2 / sqrt 2)]"
    by (simp add: grienwank_comp_def grienwank_weights_def broadcast_div_def Let_def
        sum_axis1_def prod_axis1_def add_arrays_def numeral_2_eq_2)
  show ?thesis
    using C10_comp_agrees_with_calc [of 1 "[[0, 0], [1, 2]]" 2 20 "1/5" 6 0] rows val
    by (simp add: numeral_2_eq_2)
qed

lemma float_cf_unbound: "load_global stat_globals ''float_cf'' = Inl (NameError ''float_cf'')"
  by (simp add: load_global_def stat_globals_def)

lemma draw_batch_unbound:
  "\<exists>e. draw_batch stat_globals orthogonalize Y mhat g = (Inl e, g)"
proof (cases "orthogonalize Y")
  case (Inl e)
  then show ?thesis by (simp add: draw_batch_def)
next
  case (Inr r)
  obtain Z p where r: "r = (Z, p)" by (cases r)
  show ?thesis
  proof (cases Z)
    case Nil
    with Inr r show ?thesis by (simp add: draw_batch_def)
  next
    case (Cons G Zs)
    with Inr r show ?thesis by (simp add: draw_batch_def float_cf_unbound)
  qed
qed

lemma draw_batch_unbound_name:
  assumes "orthogonalize Y = Inr (Z, p)" and "Z \<noteq> []"
  shows "draw_batch stat_globals orthogonalize Y mhat g = (Inl (NameError ''float_cf''), g)"
proof -
  from assms(2) obtain G Zs where "Z = G # Zs" by (cases Z) auto
  with assms(1) show ?thesis by (simp add: draw_batch_def float_cf_unbound)
qed

lemma sample_ind_rand_stage_failure:
  assumes "draw_batch env orthogonalize Y (if unique then m_fact * m else m) g = (Inl e, g')"
    and "bind_keywords kwargs = None"
  shows "sample_ind_rand env orthogonalize Y m unique m_fact max_rep kwargs g = (Inl e, g')"
  using assms by (subst sample_ind_rand.simps) simp

lemma sample_ind_rand_bad_keyword:
  assumes "bind_keywords kwargs = Some e"
  shows "sample_ind_rand env orthogonalize Y m unique m_fact max_rep kwargs g = (Inl e, g)"
  using assms by (subst sample_ind_rand.simps) simp

lemma float_cf_not_accepted:
  "bind_keywords [''float_cf''] = Some (TypeError ''unexpected keyword argument float_cf'')"
  by (simp add: bind_keywords_def sample_ind_rand_params_def)

text \<open>
  Claim C1.  \<^verbatim>\<open>float_cf\<close> is not a parameter of \<^verbatim>\<open>sample_ind_rand\<close> and is not bound in the
  module's namespace, and the retry call passes it as a keyword argument the function
  does not accept.  Hence every call in the module's own namespace ends in an exception
  with the random source untouched, and when the orthogonalizer has returned a non-empty
  list of cores that exception is the \<^verbatim>\<open>NameError\<close> of the first grid-extension check.
\<close>

theorem C1_float_cf_undefined:
  "''float_cf'' \<notin> set sample_ind_rand_params
   \<and> stat_globals ''float_cf'' = None
   \<and> bind_keywords [''float_cf''] = Some (TypeError ''unexpected keyword argument float_cf'')
   \<and> (\<exists>e. sample_ind_rand stat_globals orthogonalize Y m unique m_fact max_rep kwargs g = (Inl e, g))
   \<and> (orthogonalize Y = Inr (Z, p) \<and> Z \<noteq> [] \<and> bind_keywords kwargs = None \<longrightarrow>
        sample_ind_rand stat_globals orthogonalize Y m unique m_fact max_rep kwargs g
          = (Inl (NameError ''float_cf''), g))"
proof -
  have a: "''float_cf'' \<notin> set sample_ind_rand_params"
    by (simp add: sample_ind_rand_params_def)
  have b: "stat_globals ''float_cf'' = None"
    by (simp add: stat_globals_def)
  have c: "\<exists>e. sample_ind_rand stat_globals orthogonalize Y m unique m_fact max_rep kwargs g = (Inl e, g)"
  proof (cases "bind_keywords kwargs")
    case None
    obtain e where "draw_batch stat_globals orthogonalize Y (if unique then m_fact * m else m) g = (Inl e, g)"
      using draw_batch_unbound by fast
    from sample_ind_rand_stage_failure [OF this None] show ?thesis by (rule exI)
  next
    case (Some e)
    from sample_ind_rand_bad_keyword [OF this] show ?thesis by (rule exI)
  qed
  have d: "orthogonalize Y = Inr (Z, p) \<and> Z \<noteq> [] \<and> bind_keywords kwargs = None \<longrightarrow>
        sample_ind_rand stat_globals orthogonalize Y m unique m_fact max_rep kwargs g
          = (Inl (NameError ''float_cf''), g)"
  proof (intro impI, elim conjE)
    assume o: "orthogonalize Y = Inr (Z, p)" and z: "Z \<noteq> []" and k: "bind_keywords kwargs = None"
    have "draw_batch stat_globals orthogonalize Y (if unique then m_fact * m else m) g
            = (Inl (NameError ''float_cf''), g)"
      using o z by (rule draw_batch_unbound_name)
    then show "sample_ind_rand stat_globals orthogonalize Y m unique m_fact max_rep kwargs g
          = (Inl (NameError ''float_cf''), g)"
      using k by (rule sample_ind_rand_stage_failure)
  qed
  show ?thesis by (intro conjI a b c d float_cf_not_accepted)
qed

theorem C1_float_cf_undefined_witness:
  "orth_id [one_hot] = Inr ([one_hot], 1) \<and> [one_hot] \<noteq> [] \<and> bind_keywords [] = None
   \<and> sample_ind_rand stat_globals orth_id [one_hot] 2 True 5 100 [] rng0
        = (Inl (NameError ''float_cf''), rng0)"
proof -
  have h: "orth_id [one_hot] = Inr ([one_hot], 1) \<and> [one_hot] \<noteq> [] \<and> bind_keywords [] = None"
    by (simp add: orth_id_def bind_keywords_def)
  with C1_float_cf_undefined [of orth_id "[one_hot]" 2 True 5 100 "[]" rng0 "[one_hot]" 1]
  show ?thesis by simp
qed

lemma sample_candidate_length:
  assumes "sample_candidate di n qm im g = (Inr (im', q'), g')"
  shows "length im' = length im"
proof -
  obtain r g1 where ch: "np_random_choice n 1
      (case qm of None \<Rightarrow> None | Some qm \<Rightarrow> np_normalize (row_norms qm)) g = (r, g1)"
    by (cases "np_random_choice n 1
      (case qm of None \<Rightarrow> None | Some qm \<Rightarrow> np_normalize (row_norms qm)) g")
  show ?thesis
  proof (cases r)
    case (Inl e)
    with assms ch show ?thesis by (simp add: sample_candidate_def)
  next
    case (Inr ind)
    with assms ch show ?thesis
      by (cases ind; cases qm) (auto simp: sample_candidate_def split: if_splits)
  qed
qed

lemma sample_rows_lengths:
  assumes "sample_rows di n slice rows g = (Inr cs, g')"
    and "\<forall>r \<in> set rows. length (fst r) = d"
  shows "\<forall>c \<in> set cs. length (fst c) = d"
  using assms
proof (induction rows arbitrary: cs g)
  case Nil
  then show ?case by simp
next
  case (Cons r rows)
  obtain im q where r: "r = (im, q)" by (cases r)
  obtain res g1 where c1: "sample_candidate di n (slice q) im g = (res, g1)"
    by (cases "sample_candidate di n (slice q) im g")
  show ?case
  proof (cases res)
    case (Inl e)
    with Cons.prems(1) r c1 show ?thesis by simp
  next
    case (Inr c)
    obtain im' q' where c: "c = (im', q')" by (cases c)
    obtain res2 g2 where c2: "sample_rows di n slice rows g1 = (res2, g2)"
      by (cases "sample_rows di n slice rows g1")
    show ?thesis
    proof (cases res2)
      case (Inl e)
      with Cons.prems(1) r c1 Inr c2 show ?thesis by simp
    next
      case inr2: (Inr cs2)
      from Cons.prems(1) r c1 Inr c2 inr2 have cs: "cs = c # cs2" and g2: "g2 = g'" by simp_all
      from Cons.prems(2) have "\<forall>r \<in> set rows. length (fst r) = d" by simp
      with Cons.IH c2 inr2 g2 have tl: "\<forall>c \<in> set cs2. length (fst c) = d" by simp
      from c1 Inr c have "length im' = length im" by (simp add: sample_candidate_length)
      with Cons.prems(2) r have "length im' = d" by simp
      with tl cs c show ?thesis by simp
    qed
  qed
qed

lemma sample_dim_lengths:
  assumes "sample_dim float_cf di G I Q qcols g = (Inr (I', Q'), g')"
    and "\<forall>row \<in> set I. length row = d"
  shows "\<forall>row \<in> set I'. length row = d"
proof -
  obtain r1 n0 r2 where sh: "shape G = (r1, n0, r2)" by (cases "shape G")
  show ?thesis
  proof (cases "grid_extension float_cf G")
    case (Inl e)
    with assms(1) sh show ?thesis by (simp add: sample_dim_def)
  next
    case (Inr ext)
    obtain n Gx where ext: "ext = (n, Gx)" by (cases ext)
    let ?slice = "\<lambda>q. map_option (einsum_row qcols q) Gx"
    obtain res g1 where sr: "sample_rows di n ?slice (zip I Q) g = (res, g1)"
      by (cases "sample_rows di n ?slice (zip I Q) g")
    have rows: "\<forall>r \<in> set (zip I Q). length (fst r) = d"
      using assms(2) by (auto dest: set_zip_leftD)
    show ?thesis
    proof (cases res)
      case (Inl e)
      with assms(1) sh Inr ext sr show ?thesis
        by (simp add: sample_dim_def split: if_splits)
    next
      case inr: (Inr cs)
      with assms(1) sh Inr ext sr have "I' = map fst cs"
        by (simp add: sample_dim_def split: if_splits)
      moreover from sample_rows_lengths [OF _ rows] sr inr
      have "\<forall>c \<in> set cs. length (fst c) = d" by simp
      ultimately show ?thesis by simp
    qed
  qed
qed

lemma sample_dims_lengths:
  assumes "sample_dims float_cf di Gs I Q qcols g = (Inr I', g')"
    and "\<forall>row \<in> set I. length row = d"
  shows "\<forall>row \<in> set I'. length row = d"
  using assms
proof (induction Gs arbitrary: di I Q qcols g)
  case Nil
  then show ?case by simp
next
  case (Cons G Gs)
  obtain res g1 where sd: "sample_dim float_cf di G I Q qcols g = (res, g1)"
    by (cases "sample_dim float_cf di G I Q qcols g")
  show ?case
  proof (cases res)
    case (Inl e)
    with Cons.prems(1) sd show ?thesis by simp
  next
    case (Inr st)
    obtain I1 Q1 where st: "st = (I1, Q1)" by (cases st)
    from sd Inr st Cons.prems(2) have "\<forall>row \<in> set I1. length row = d"
      using sample_dim_lengths by simp
    moreover from Cons.prems(1) sd Inr st
    have "sample_dims float_cf (Suc di) Gs I1 Q1 (snd (snd (shape G))) g1 = (Inr I', g')"
      by simp
    ultimately show ?thesis using Cons.IH by simp
  qed
qed

lemma draw_batch_lengths:
  assumes "draw_batch env orthogonalize Y mhat g = (Inr (float_cf, I), g')"
  shows "\<forall>row \<in> set I. length row = length Y"
proof (cases "orthogonalize Y")
  case (Inl e)
  with assms show ?thesis by (simp add: draw_batch_def)
next
  case (Inr zp)
  obtain Z p where zp: "zp = (Z, p)" by (cases zp)
  show ?thesis
  proof (cases Z)
    case Nil
    with assms Inr zp show ?thesis by (simp add: draw_batch_def)
  next
    case (Cons G Zs)
    show ?thesis
    proof (cases "load_global env ''float_cf''")
      case (Inl e)
      with assms Inr zp Cons show ?thesis by (simp add: draw_batch_def)
    next
      case fc: (Inr fc)
      obtain res g1 where f1: "first_core fc G mhat g = (res, g1)"
        by (cases "first_core fc G mhat g")
      show ?thesis
      proof (cases res)
        case (Inl e)
        with assms Inr zp Cons fc f1 show ?thesis by (simp add: draw_batch_def)
      next
        case st: (Inr st)
        obtain Q I1 qcols where st': "st = (Q, I1, qcols)" by (cases st)
        let ?I0 = "map (\<lambda>row. (replicate (length Y) 0)[0 := row ! 0]) I1"
        obtain res2 g2 where sd: "sample_dims fc 1 Zs ?I0 Q qcols g1 = (res2, g2)"
          by (cases "sample_dims fc 1 Zs ?I0 Q qcols g1")
        have init: "\<forall>row \<in> set ?I0. length row = length Y" by simp
        show ?thesis
        proof (cases res2)
          case (Inl e)
          with assms Inr zp Cons fc f1 st st' sd show ?thesis
            by (simp add: draw_batch_def Let_def split: if_splits)
        next
          case i2: (Inr I2)
          with assms Inr zp Cons fc f1 st st' sd have "I = I2"
            by (simp add: draw_batch_def Let_def split: if_splits)
          with sample_dims_lengths [OF _ init] sd i2 show ?thesis by simp
        qed
      qed
    qed
  qed
qed

lemma random_interval_le: "fst (random_interval i g) \<le> i"
  by (simp add: random_interval_def random_sample_def)

lemma shuffle_from_mset:
  assumes "i < length xs \<or> i = 0"
  shows "mset (fst (shuffle_from i xs g)) = mset xs"
  using assms
proof (induction i arbitrary: xs g)
  case 0
  then show ?case by simp
next
  case (Suc i)
  then have len: "Suc i < length xs" by simp
  obtain j g1 where ri: "random_interval (Suc i) g = (j, g1)"
    by (cases "random_interval (Suc i) g")
  with random_interval_le [of "Suc i" g] have "j \<le> Suc i" by simp
  with len have j: "j < length xs" by simp
  let ?ys = "xs[Suc i := xs ! j, j := xs ! Suc i]"
  have sw: "mset ?ys = mset xs" using j len by (rule mset_swap)
  have "i < length ?ys \<or> i = 0" using len by simp
  then have "mset (fst (shuffle_from i ?ys g1)) = mset ?ys" by (rule Suc.IH)
  with sw ri show ?case by simp
qed

lemma np_random_shuffle_mset: "mset (fst (np_random_shuffle xs g)) = mset xs"
proof -
  have "length xs - 1 < length xs \<or> length xs - 1 = 0" by (cases xs) simp_all
  then show ?thesis unfolding np_random_shuffle_def by (rule shuffle_from_mset)
qed

lemma np_unique_rows_distinct: "distinct (np_unique_rows I)"
  by (simp add: np_unique_rows_def)

lemma np_unique_rows_set: "set (np_unique_rows I) = set I"
  by (simp add: np_unique_rows_def)

lemma py_slice_to_subset: "set (py_slice_to xs m) \<subseteq> set xs"
  by (auto simp: py_slice_to_def dest: in_set_takeD)

lemma py_slice_to_distinct: "distinct xs \<Longrightarrow> distinct (py_slice_to xs m)"
  by (simp add: py_slice_to_def)

lemma scale_rows_distinct:
  assumes "c \<noteq> (0::real)" and "distinct I"
  shows "distinct (map (map (\<lambda>v. v / c)) I)"
proof -
  have "inj (\<lambda>v::real. v / c)" using assms(1) by (simp add: inj_def)
  then have "inj (map (\<lambda>v::real. v / c))" by (simp add: inj_map)
  then have "inj_on (map (\<lambda>v::real. v / c)) (set I)" by (rule inj_on_subset) simp
  with assms(2) show ?thesis by (simp add: distinct_map)
qed

lemma finish_returns:
  assumes "finish float_cf I m = Inr I'"
  shows "int (length I') = m
       \<and> (\<forall>row \<in> set I'. \<exists>r \<in> set I. length row = length r)
       \<and> (distinct I \<longrightarrow> distinct I')"
proof -
  let ?S = "py_slice_to I m"
  from assms have len: "int (length ?S) = m"
    by (simp add: finish_def Let_def split: if_splits)
  have sub: "\<forall>row \<in> set ?S. row \<in> set I" using py_slice_to_subset [of I m] by blast
  show ?thesis
  proof (cases float_cf)
    case PyNone
    with assms len have "I' = ?S" by (simp add: finish_def Let_def)
    with len sub show ?thesis by (auto simp: py_slice_to_distinct)
  next
    case (PyInt k)
    with assms len have k: "k \<noteq> 0" and I': "I' = map (map (\<lambda>v. v / real_of_int k)) ?S"
      by (simp_all add: finish_def Let_def split: if_splits)
    from k have "real_of_int k \<noteq> 0" by simp
    then have "distinct ?S \<longrightarrow> distinct I'" unfolding I' by (simp add: scale_rows_distinct)
    with len sub I' show ?thesis by (auto simp: py_slice_to_distinct)
  next
    case (PyFloat f)
    with assms len have f: "f \<noteq> 0" and I': "I' = map (map (\<lambda>v. v / f)) ?S"
      by (simp_all add: finish_def Let_def split: if_splits)
    from f have "distinct ?S \<longrightarrow> distinct I'" unfolding I' by (simp add: scale_rows_distinct)
    with len sub I' show ?thesis by (auto simp: py_slice_to_distinct)
  next
    case PyObject
    with assms len show ?thesis by (simp add: finish_def Let_def)
  qed
qed

lemma sample_ind_rand_returns:
  assumes "sample_ind_rand env orthogonalize Y m unique m_fact max_rep kwargs g = (Inr I, g')"
  shows "int (length I) = m \<and> (\<forall>row \<in> set I. length row = length Y)
       \<and> (unique \<longrightarrow> distinct I)"
  using assms
proof (induction env orthogonalize Y m unique m_fact max_rep kwargs g
    rule: sample_ind_rand.induct)
  case (1 env orthogonalize Y m unique m_fact max_rep kwargs g)
  note run = "1.prems" [unfolded sample_ind_rand.simps [of env orthogonalize Y m unique m_fact max_rep kwargs g]]
  show ?case
  proof (cases "bind_keywords kwargs")
    case (Some e)
    with run show ?thesis by simp
  next
    case None
    obtain x g1 where db: "draw_batch env orthogonalize Y (if unique then m_fact * m else m) g = (x, g1)"
      by (cases "draw_batch env orthogonalize Y (if unique then m_fact * m else m) g")
    show ?thesis
    proof (cases x)
      case (Inl e)
      with run None db show ?thesis by simp
    next
      case (Inr b)
      obtain fc I0 where b: "b = (fc, I0)" by (cases b)
      from db Inr b have rows: "\<forall>row \<in> set I0. length row = length Y"
        by (simp add: draw_batch_lengths)
      show ?thesis
      proof (cases unique)
        case False
        with run None db Inr b have "finish fc I0 m = Inr I" by simp
        from finish_returns [OF this] rows False show ?thesis by auto
      next
        case True
        let ?U = "np_unique_rows I0"
        show ?thesis
        proof (cases "int (length ?U) < m")
          case short: True
          show ?thesis
          proof (cases "max_rep < 0 \<or> 1000000 < m_fact")
            case True
            with run None db Inr b \<open>unique\<close> short show ?thesis by (simp add: Let_def)
          next
            case False
            with run None db Inr b \<open>unique\<close> short
            have rec: "sample_ind_rand env orthogonalize Y m True (2 * m_fact) (max_rep - 1)
                         [''float_cf''] g1 = (Inr I, g')"
              by (simp add: Let_def)
            have "int (length I) = m \<and> (\<forall>row \<in> set I. length row = length Y)
                   \<and> (True \<longrightarrow> distinct I)"
              using None db [symmetric] Inr b [symmetric] \<open>unique\<close> refl short False rec
              by (rule "1.IH")
            then show ?thesis by simp
          qed
        next
          case False
          obtain S g2 where sh: "np_random_shuffle ?U g1 = (S, g2)"
            by (cases "np_random_shuffle ?U g1")
          with run None db Inr b \<open>unique\<close> False have fin: "finish fc S m = Inr I"
            by (simp add: Let_def)
          from np_random_shuffle_mset [of ?U g1] sh have ms: "mset S = mset ?U" by simp
          then have "set S = set ?U" by (rule mset_eq_setD)
          then have setS: "set S = set I0" by (simp add: np_unique_rows_set)
          from ms have "distinct S" 
            using mset_eq_imp_distinct_iff np_unique_rows_distinct by blast
          with finish_returns [OF fin] rows setS show ?thesis by auto
        qed
      qed
    qed
  qed
qed

lemma finish_short_batch:
  assumes "int (length (py_slice_to J m)) \<noteq> m"
  shows "finish float_cf J m = Inl (ValueError ''Can not generate the required number of samples'')"
  using assms by (simp add: finish_def Let_def)

text \<open>
  Claim C2.  Whatever \<^verbatim>\<open>float_cf\<close> is bound to, whenever \<^verbatim>\<open>sample_ind_rand\<close> returns an
  array, that array has exactly \<open>m\<close> rows, each of \<open>d\<close> entries, \<open>d\<close> the number of cores
  of \<open>Y\<close>: a batch of fewer rows is never returned.  The check after the slice
  \<^verbatim>\<open>I[:m]\<close> raises \<^verbatim>\<open>ValueError\<close> on any other number of rows.  In the module's own
  namespace no call returns (claim C1), so the witness runs in the namespace that binds
  \<^verbatim>\<open>float_cf\<close> to \<^verbatim>\<open>None\<close>.
\<close>

theorem C2_exact_batch_size:
  "(sample_ind_rand env orthogonalize Y m unique m_fact max_rep kwargs g = (Inr I, g') \<longrightarrow>
      int (length I) = m \<and> (\<forall>row \<in> set I. length row = length Y))
   \<and> (int (length (py_slice_to J m)) \<noteq> m \<longrightarrow>
      finish float_cf J m = Inl (ValueError ''Can not generate the required number of samples''))"
  using sample_ind_rand_returns [of env orthogonalize Y m unique m_fact max_rep kwargs g I g']
    finish_short_batch [of J m float_cf]
  by simp

theorem C2_exact_batch_size_witness:
  "(\<exists>g'. sample_ind_rand patched_globals orth_id [fork_left, fork_right] 3 False 5 0 [] rng0
           = (Inr [[0, 2], [0, 2], [0, 2]], g'))
   \<and> int (length [[0, 2], [0, 2], [0, 2::real]]) = 3
   \<and> length [0, 2::real] = length [fork_left, fork_right]
   \<and> int (length (py_slice_to [[0::real]] 2)) \<noteq> 2
   \<and> finish PyNone [[0]] 2 = Inl (ValueError ''Can not generate the required number of samples'')"
proof -
  note returns = C2_exact_batch_size [THEN conjunct1, rule_format]
  note short = C2_exact_batch_size [THEN conjunct2, rule_format]
  have "fst (sample_ind_rand patched_globals orth_id [fork_left, fork_right] 3 False 5 0 [] rng0)
          = Inr [[0, 2], [0, 2], [0, 2]]"
    by code_simp
  then have run: "sample_ind_rand patched_globals orth_id [fork_left, fork_right] 3 False 5 0 [] rng0
          = (Inr [[0, 2], [0, 2], [0, 2]],
             snd (sample_ind_rand patched_globals orth_id [fork_left, fork_right] 3 False 5 0 [] rng0))"
    by (simp add: prod_eq_iff)
  have few: "int (length (py_slice_to [[0::real]] 2)) \<noteq> 2"
    by (simp add: py_slice_to_def)
  from returns [OF run] run few short [OF few, of PyNone] show ?thesis by auto
qed

text \<open>
  Claim C3.  Whatever \<^verbatim>\<open>float_cf\<close> is bound to, whenever \<^verbatim>\<open>sample_ind_rand\<close> is called
  with \<^verbatim>\<open>unique=True\<close> and returns an array, its \<open>m\<close> rows are pairwise distinct.  The
  witness runs in the namespace that binds \<^verbatim>\<open>float_cf\<close> to \<^verbatim>\<open>None\<close>.
\<close>

theorem C3_unique_rows_distinct:
  assumes "sample_ind_rand env orthogonalize Y m True m_fact max_rep kwargs g = (Inr I, g')"
  shows "distinct I \<and> int (length I) = m"
  using sample_ind_rand_returns [OF assms] by simp

theorem C3_unique_rows_distinct_witness:
  "(\<exists>g'. sample_ind_rand patched_globals orth_id [uniform3] 2 True 5 0 [] rng0
           = (Inr [[0], [2]], g'))
   \<and> distinct [[0], [2::real]]"
proof -
  have "fst (sample_ind_rand patched_globals orth_id [uniform3] 2 True 5 0 [] rng0)
          = Inr [[0], [2]]"
    by code_simp
  then have run: "sample_ind_rand patched_globals orth_id [uniform3] 2 True 5 0 [] rng0
          = (Inr [[0], [2]],
             snd (sample_ind_rand patched_globals orth_id [uniform3] 2 True 5 0 [] rng0))"
    by (simp add: prod_eq_iff)
  from C3_unique_rows_distinct [OF run] run show ?thesis by auto
qed


lemma retry_call_fails:
  "sample_ind_rand env orthogonalize Y m unique m_fact max_rep [''float_cf''] g
     = (Inl (TypeError ''unexpected keyword argument float_cf''), g)"
  using float_cf_not_accepted by (rule sample_ind_rand_bad_keyword)

text \<open>
  Claim C4, evaluated on its own example: one reachable index, \<open>m = 2\<close>,
  \<^verbatim>\<open>unique=True\<close>, \<^verbatim>\<open>max_rep = 0\<close>.  In the module's namespace the call raises
  \<^verbatim>\<open>NameError\<close>; with \<^verbatim>\<open>float_cf\<close> bound to \<^verbatim>\<open>None\<close> the shortfall reaches the retry,
  and the retry call raises \<^verbatim>\<open>TypeError\<close>, as every call with that keyword argument
  does.  The \<^verbatim>\<open>ValueError\<close> of the claim is raised only when \<^verbatim>\<open>max_rep < 0\<close> or
  \<^verbatim>\<open>m_fact > 1000000\<close> holds already at the first shortfall.
\<close>

theorem C4_retry_raises_other_error:
  "fst (sample_ind_rand stat_globals orth_id [one_hot] 2 True 5 0 [] rng0)
     = Inl (NameError ''float_cf'')
   \<and> fst (sample_ind_rand patched_globals orth_id [one_hot] 2 True 5 0 [] rng0)
     = Inl (TypeError ''unexpected keyword argument float_cf'')
   \<and> fst (sample_ind_rand patched_globals orth_id [one_hot] 2 True 5 (- 1) [] rng0)
     = Inl (ValueError ''Can not generate the required number of samples'')
   \<and> sample_ind_rand env orthogonalize Y m unique m_fact max_rep [''float_cf''] g
     = (Inl (TypeError ''unexpected keyword argument float_cf''), g)"
proof -
  have a: "fst (sample_ind_rand stat_globals orth_id [one_hot] 2 True 5 0 [] rng0)
     = Inl (NameError ''float_cf'')"
    by code_simp
  have b: "fst (sample_ind_rand patched_globals orth_id [one_hot] 2 True 5 0 [] rng0)
     = Inl (TypeError ''unexpected keyword argument float_cf'')"
    by code_simp
  have c: "fst (sample_ind_rand patched_globals orth_id [one_hot] 2 True 5 (- 1) [] rng0)
     = Inl (ValueError ''Can not generate the required number of samples'')"
    by code_simp
  show ?thesis by (intro conjI a b c retry_call_fails)
qed












end
